theory Spec2Isabelle
  imports Main "HOL-Library.Word"
begin

unbundle bit_operations_syntax

section \<open>Python values seen by the reporter\<close>

text \<open>
  The exceptions that can arise in \<open>main.py\<close>. \<open>SystemExit n\<close> is what
  \<open>sys.exit(n)\<close> raises; it is not a subclass of \<open>Exception\<close>, so no
  \<open>except Exception\<close> clause of the program catches it.
\<close>

datatype py_exc =
    AttributeError
  | KeyError
  | TypeError
  | ValueError
  | OverflowError
  | EOFError
  | SystemExit int

text \<open>
  A Python float is an IEEE-754 binary64 value, kept as its bit pattern: bit 63 is the
  sign, bits 62..52 the exponent, bits 51..0 the fraction.
\<close>

type_synonym pyfloat = "64 word"

definition float_is_zero :: "pyfloat \<Rightarrow> bool" where
  \<comment> \<open>\<open>0.0\<close> and \<open>-0.0\<close>: everything but the sign bit is clear.\<close>
  "float_is_zero f = (f AND 0x7FFFFFFFFFFFFFFF = 0)"

definition float_is_nan :: "pyfloat \<Rightarrow> bool" where
  "float_is_nan f = (0x7FF0000000000000 < (f AND 0x7FFFFFFFFFFFFFFF))"

definition float_lt_zero :: "pyfloat \<Rightarrow> bool" where
  \<comment> \<open>\<open>f < 0\<close> in Python: sign bit set, and neither a zero nor a NaN.\<close>
  "float_lt_zero f = (bit f 63 \<and> \<not> float_is_zero f \<and> \<not> float_is_nan f)"

text \<open>
  What \<open>json.load\<close> and \<open>response.json()\<close> produce. A string is a list of
  characters; each \<open>char\<close> stands for the code point of the same number (0..255).
  A decoded object is an association list read with \<open>map_of\<close>.
\<close>

datatype json =
    JNull
  | JBool bool
  | JInt int
  | JFloat pyfloat
  | JStr string
  | JArr "json list"
  | JObj "(string \<times> json) list"

fun truthy :: "json \<Rightarrow> bool" where
  \<comment> \<open>Python's truth value, as tested by \<open>not x\<close>.\<close>
  "truthy JNull = False"
| "truthy (JBool b) = b"
| "truthy (JInt i) = (i \<noteq> 0)"
| "truthy (JFloat f) = (\<not> float_is_zero f)"
| "truthy (JStr s) = (s \<noteq> [])"
| "truthy (JArr xs) = (xs \<noteq> [])"
| "truthy (JObj kvs) = (kvs \<noteq> [])"

fun py_eq_0 :: "json \<Rightarrow> bool" where
  \<comment> \<open>\<open>x == 0\<close>: numbers compare by value, and \<open>False == 0\<close> holds.\<close>
  "py_eq_0 (JInt i) = (i = 0)"
| "py_eq_0 (JBool b) = (\<not> b)"
| "py_eq_0 (JFloat f) = float_is_zero f"
| "py_eq_0 JNull = False"
| "py_eq_0 (JStr s) = False"
| "py_eq_0 (JArr xs) = False"
| "py_eq_0 (JObj kvs) = False"

fun py_dict_get :: "json \<Rightarrow> string \<Rightarrow> json \<Rightarrow> py_exc + json" where
  \<comment> \<open>\<open>x.get(key, default)\<close>; only a dict has the method.\<close>
  "py_dict_get (JObj kvs) key dflt =
     Inr (case map_of kvs key of Some v \<Rightarrow> v | None \<Rightarrow> dflt)"
| "py_dict_get JNull key dflt = Inl AttributeError"
| "py_dict_get (JBool b) key dflt = Inl AttributeError"
| "py_dict_get (JInt i) key dflt = Inl AttributeError"
| "py_dict_get (JFloat f) key dflt = Inl AttributeError"
| "py_dict_get (JStr s) key dflt = Inl AttributeError"
| "py_dict_get (JArr xs) key dflt = Inl AttributeError"

fun py_getitem :: "json \<Rightarrow> string \<Rightarrow> py_exc + json" where
  \<comment> \<open>\<open>x[key]\<close> with a string key.\<close>
  "py_getitem (JObj kvs) key =
     (case map_of kvs key of Some v \<Rightarrow> Inr v | None \<Rightarrow> Inl KeyError)"
| "py_getitem JNull key = Inl TypeError"
| "py_getitem (JBool b) key = Inl TypeError"
| "py_getitem (JInt i) key = Inl TypeError"
| "py_getitem (JFloat f) key = Inl TypeError"
| "py_getitem (JStr s) key = Inl TypeError"
| "py_getitem (JArr xs) key = Inl TypeError"

subsection \<open>Strings\<close>

definition py_isspace :: "char \<Rightarrow> bool" where
  \<comment> \<open>The code points below 256 that \<open>str.strip()\<close> removes.\<close>
  "py_isspace c =
     (let n = (of_char c :: nat)
      in (9 \<le> n \<and> n \<le> 13) \<or> (28 \<le> n \<and> n \<le> 32) \<or> n = 133 \<or> n = 160)"

definition py_strip :: "string \<Rightarrow> string" where
  "py_strip s = rev (dropWhile py_isspace (rev (dropWhile py_isspace s)))"

definition py_lower_char :: "char \<Rightarrow> char" where
  "py_lower_char c =
     (let n = (of_char c :: nat)
      in if (65 \<le> n \<and> n \<le> 90) \<or> (192 \<le> n \<and> n \<le> 222 \<and> n \<noteq> 215)
         then char_of (n + 32) else c)"

definition py_lower :: "string \<Rightarrow> string" where
  "py_lower s = map py_lower_char s"

section \<open>The session and the effects of a run\<close>

text \<open>
  An HTTP response as the program reads it: the status code, and what \<open>.json()\<close>
  returns (\<open>None\<close> when it raises on an undecodable body).
\<close>

record response =
  status_code :: int
  json_body :: "json option"

text \<open>
  The calls a run makes, oldest first: the liveness probe, a lookup of a handle, a report
  of an identifier with a reason code, a wait.
\<close>

datatype event =
    CheckCookies
  | GetUserInfo string
  | ReportAccount json int
  | Sleep pyfloat

text \<open>
  What lies outside the program. \<open>session_get\<close> is \<open>self.session.get\<close> on the
  lookup URL of a \<open>uniqueId\<close>, \<open>session_post\<close> is \<open>self.session.post\<close> of the
  report payload built from an identifier and a reason; both answer \<open>None\<close> when the
  call raises, and the answer may depend on the calls made so far. \<open>time_sleep\<close> is
  \<open>time.sleep\<close>, answering the exception it raises if any, and \<open>py_float\<close> is the
  builtin \<open>float\<close> on a string, \<open>None\<close> for its \<open>ValueError\<close>.
\<close>

record env =
  session_get :: "event list \<Rightarrow> string \<Rightarrow> response option"
  session_post :: "event list \<Rightarrow> json \<Rightarrow> int \<Rightarrow> response option"
  time_sleep :: "pyfloat \<Rightarrow> py_exc option"
  py_float :: "string \<Rightarrow> pyfloat option"

section \<open>TikTokMassReporter\<close>

definition check_cookies_valid :: "env \<Rightarrow> event list \<Rightarrow> bool" where
  "check_cookies_valid e h =
     (case session_get e h ''tiktok'' of
        None \<Rightarrow> False
      | Some r \<Rightarrow> status_code r = 200)"

definition get_user_info :: "env \<Rightarrow> event list \<Rightarrow> string \<Rightarrow> json" where
  \<comment> \<open>Python's \<open>None\<close> is \<open>JNull\<close>.\<close>
  "get_user_info e h username =
     (case session_get e h username of
        None \<Rightarrow> JNull
      | Some r \<Rightarrow>
          if status_code r = 200
          then (case json_body r of None \<Rightarrow> JNull | Some j \<Rightarrow> j)
          else JNull)"

definition report_account :: "env \<Rightarrow> event list \<Rightarrow> json \<Rightarrow> int \<Rightarrow> bool" where
  "report_account e h user_id reason =
     (case session_post e h user_id reason of
        None \<Rightarrow> False
      | Some r \<Rightarrow>
          if status_code r = 200
          then (case json_body r of
                  None \<Rightarrow> False
                | Some result \<Rightarrow>
                    (case py_dict_get result ''status_code'' (JInt 0) of
                       Inl x \<Rightarrow> False
                     | Inr v \<Rightarrow> py_eq_0 v))
          else False)"

text \<open>
  The classification of a report as the specification words it: success exactly when the
  transport status is success and the decoded body's status field equals 0; a missing
  field is a failure.
\<close>

definition spec_submit_success :: "response option \<Rightarrow> bool" where
  "spec_submit_success t =
     (case t of
        None \<Rightarrow> False
      | Some r \<Rightarrow>
          status_code r = 200 \<and>
          (case json_body r of
             Some (JObj kvs) \<Rightarrow>
               (case map_of kvs ''status_code'' of
                  Some v \<Rightarrow> py_eq_0 v
                | None \<Rightarrow> False)
           | _ \<Rightarrow> False))"

subsection \<open>process_accounts\<close>

text \<open>
  The state of the loop: the two counters, and the calls made so far.
\<close>

record run =
  success_count :: nat
  fail_count :: nat
  trace :: "event list"

text \<open>The three counts printed as the report summary.\<close>

record summary =
  successful :: nat
  failed :: nat
  total_processed :: nat

definition normalize :: "string \<Rightarrow> string" where
  \<comment> \<open>\<open>username.strip().replace('@', '')\<close>\<close>
  "normalize username = filter (\<lambda>c. c \<noteq> CHR ''@'') (py_strip username)"

text \<open>
  Normalization as the specification words it: trim the whitespace, then drop one leading
  marker character.
\<close>

definition spec_normalize :: "string \<Rightarrow> string" where
  "spec_normalize username =
     (case py_strip username of
        [] \<Rightarrow> []
      | c # cs \<Rightarrow> if c = CHR ''@'' then cs else c # cs)"

definition user_not_found :: "json \<Rightarrow> py_exc + bool" where
  \<comment> \<open>\<open>not user_info or not user_info.get('userInfo')\<close>\<close>
  "user_not_found user_info =
     (if \<not> truthy user_info then Inr True
      else (case py_dict_get user_info ''userInfo'' JNull of
              Inl x \<Rightarrow> Inl x
            | Inr v \<Rightarrow> Inr (\<not> truthy v)))"

definition extract_user_id :: "json \<Rightarrow> py_exc + json" where
  \<comment> \<open>\<open>user_info['userInfo']['user']['id']\<close>\<close>
  "extract_user_id user_info =
     (case py_getitem user_info ''userInfo'' of
        Inl x \<Rightarrow> Inl x
      | Inr a \<Rightarrow>
          (case py_getitem a ''user'' of
             Inl x \<Rightarrow> Inl x
           | Inr b \<Rightarrow> py_getitem b ''id''))"

definition called :: "event \<Rightarrow> run \<Rightarrow> run" where
  "called ev st = st\<lparr>trace := trace st @ [ev]\<rparr>"

text \<open>
  One pass through the body of the \<open>for\<close> loop, at the 1-based position \<open>i\<close> of a
  list of \<open>total_n\<close> entries; \<open>h\<close> are the calls made before \<open>process_accounts\<close>
  was entered, \<open>trace st\<close> the calls it has made itself. \<open>Inl (x, st)\<close> is the
  exception \<open>x\<close> leaving the loop in state \<open>st\<close>; \<open>Inr st\<close> is the state in which
  the next pass starts.
\<close>

definition iteration ::
  "env \<Rightarrow> event list \<Rightarrow> int \<Rightarrow> pyfloat \<Rightarrow> nat \<Rightarrow> nat \<Rightarrow> string \<Rightarrow> run
     \<Rightarrow> (py_exc \<times> run) + run" where
  "iteration e h reason delay total_n i raw st =
     (let username = normalize raw in
      if username = [] then Inr st
      else
        let user_info = get_user_info e (h @ trace st) username;
            st1 = called (GetUserInfo username) st
        in (case user_not_found user_info of
              Inl x \<Rightarrow> Inl (x, st1)
            | Inr True \<Rightarrow> Inr (st1\<lparr>fail_count := fail_count st1 + 1\<rparr>)
            | Inr False \<Rightarrow>
                (case extract_user_id user_info of
                   Inl x \<Rightarrow> Inl (x, st1)
                 | Inr user_id \<Rightarrow>
                     let ok = report_account e (h @ trace st1) user_id reason;
                         st2 = called (ReportAccount user_id reason) st1;
                         st3 = (if ok then st2\<lparr>success_count := success_count st2 + 1\<rparr>
                                else st2\<lparr>fail_count := fail_count st2 + 1\<rparr>)
                     in if i < total_n
                        then (case time_sleep e delay of
                                Some x \<Rightarrow> Inl (x, called (Sleep delay) st3)
                              | None \<Rightarrow> Inr (called (Sleep delay) st3))
                        else Inr st3)))"

fun loop ::
  "env \<Rightarrow> event list \<Rightarrow> int \<Rightarrow> pyfloat \<Rightarrow> nat \<Rightarrow> nat \<Rightarrow> string list \<Rightarrow> run
     \<Rightarrow> (py_exc \<times> run) + run" where
  "loop e h reason delay total_n i [] st = Inr st"
| "loop e h reason delay total_n i (raw # rest) st =
     (case iteration e h reason delay total_n i raw st of
        Inl x \<Rightarrow> Inl x
      | Inr st' \<Rightarrow> loop e h reason delay total_n (Suc i) rest st')"

definition start :: run where
  "start = \<lparr>success_count = 0, fail_count = 0, trace = []\<rparr>"

text \<open>
  \<open>process_accounts\<close> entered after the calls \<open>h\<close>: the calls it made, and either the
  exception that left it or the summary it printed.
\<close>

definition process_accounts ::
  "env \<Rightarrow> event list \<Rightarrow> string list \<Rightarrow> int \<Rightarrow> pyfloat \<Rightarrow> event list \<times> (py_exc + summary)" where
  "process_accounts e h usernames reason delay =
     (let total_n = length usernames
      in case loop e h reason delay total_n 1 usernames start of
           Inl (x, st) \<Rightarrow> (trace st, Inl x)
         | Inr st \<Rightarrow>
             (trace st,
              Inr \<lparr>successful = success_count st, failed = fail_count st,
                   total_processed = total_n\<rparr>))"

text \<open>
  The state of the loop of \<open>process_accounts\<close> after its first \<open>k\<close> passes, if it got
  that far.
\<close>

definition after_passes ::
  "env \<Rightarrow> event list \<Rightarrow> string list \<Rightarrow> int \<Rightarrow> pyfloat \<Rightarrow> nat \<Rightarrow> (py_exc \<times> run) + run" where
  "after_passes e h usernames reason delay k =
     loop e h reason delay (length usernames) 1 (take k usernames) start"

section \<open>Startup and prompts\<close>

text \<open>
  What opening and reading a file gives: \<open>FileNotFoundError\<close>, any other exception
  (unreadable, or contents that do not decode), or the contents.
\<close>

datatype 'a file_read = FileNotFound | ReadFailed | Loaded 'a

text \<open>
  The world \<open>main\<close> runs in: \<open>tiktok_cookies.json\<close> as \<open>json.load\<close> decodes it,
  \<open>usernames.txt\<close> as \<open>readlines\<close> returns it, and the lines waiting on standard
  input.
\<close>

record world =
  cookies_file :: "json file_read"
  usernames_file :: "string list file_read"
  stdin :: "string list"

fun is_dict :: "json \<Rightarrow> bool" where
  \<comment> \<open>\<open>isinstance(x, dict)\<close>\<close>
  "is_dict (JObj kvs) = True"
| "is_dict other = False"

fun load_cookies :: "json file_read \<Rightarrow> py_exc + json" where
  \<comment> \<open>The \<open>ValueError\<close> raised for a value that is not a dict is caught by the
      \<open>except Exception\<close> clause of the same \<open>try\<close>.\<close>
  "load_cookies FileNotFound = Inl (SystemExit 1)"
| "load_cookies ReadFailed = Inl (SystemExit 1)"
| "load_cookies (Loaded cookies) =
     (if \<not> is_dict cookies then Inl (SystemExit 1) else Inr cookies)"

fun load_usernames :: "string list file_read \<Rightarrow> py_exc + string list" where
  "load_usernames FileNotFound = Inl (SystemExit 1)"
| "load_usernames ReadFailed = Inl (SystemExit 1)"
| "load_usernames (Loaded lines) =
     Inr (map py_strip (filter (\<lambda>line. py_strip line \<noteq> []) lines))"

fun py_input :: "string list \<Rightarrow> py_exc + (string \<times> string list)" where
  \<comment> \<open>\<open>input()\<close>: the next line, or \<open>EOFError\<close> when none is left.\<close>
  "py_input [] = Inl EOFError"
| "py_input (line # rest) = Inr (line, rest)"

definition reasons :: "(string \<times> int) list" where
  "reasons =
     [(''1'', 1001), (''2'', 1002), (''3'', 1003), (''4'', 1004),
      (''5'', 1005), (''6'', 1006), (''7'', 1007), (''8'', 1008)]"

definition menu :: "(string \<times> string) list" where
  \<comment> \<open>The menu as printed.\<close>
  "menu =
     [(''1'', ''Illegal activities''), (''2'', ''Child abuse''), (''3'', ''Hate speech''),
      (''4'', ''Other (default)''), (''5'', ''Suicide or self-harm''),
      (''6'', ''Fake account''), (''7'', ''Harassment or bullying''),
      (''8'', ''Violent extremism'')]"

text \<open>
  The prompt loop over the waiting input lines: the code chosen and the lines left, or
  \<open>EOFError\<close> when the input ends before a valid choice.
\<close>

fun get_report_reason :: "string list \<Rightarrow> py_exc + (int \<times> string list)" where
  "get_report_reason [] = Inl EOFError"
| "get_report_reason (line # rest) =
     (let choice = (if py_strip line = [] then ''4'' else py_strip line)
      in case map_of reasons choice of
           Some code \<Rightarrow> Inr (code, rest)
         | None \<Rightarrow> get_report_reason rest)"

definition float_10 :: pyfloat where
  \<comment> \<open>The literal \<open>10.0\<close>.\<close>
  "float_10 = 0x4024000000000000"

definition get_delay :: "env \<Rightarrow> string list \<Rightarrow> py_exc + (pyfloat \<times> string list)" where
  \<comment> \<open>The \<open>try\<close> block of \<open>main\<close> that reads the delay.\<close>
  "get_delay e inp =
     (case py_input inp of
        Inl x \<Rightarrow> Inl x
      | Inr (line, rest) \<Rightarrow>
          (case py_float e (if line = [] then ''10'' else line) of
             Some d \<Rightarrow> Inr (d, rest)
           | None \<Rightarrow> Inr (float_10, rest)))"

definition main :: "env \<Rightarrow> world \<Rightarrow> event list \<times> (py_exc + summary)" where
  "main e w =
     (case load_cookies (cookies_file w) of
        Inl x \<Rightarrow> ([], Inl x)
      | Inr cookies \<Rightarrow>
          if \<not> check_cookies_valid e [] then ([CheckCookies], Inl (SystemExit 1))
          else
            (case load_usernames (usernames_file w) of
               Inl x \<Rightarrow> ([CheckCookies], Inl x)
             | Inr usernames \<Rightarrow>
                 if usernames = [] then ([CheckCookies], Inl (SystemExit 1))
                 else
                   (case get_report_reason (stdin w) of
                      Inl x \<Rightarrow> ([CheckCookies], Inl x)
                    | Inr (reason, inp1) \<Rightarrow>
                        (case get_delay e inp1 of
                           Inl x \<Rightarrow> ([CheckCookies], Inl x)
                         | Inr (delay, inp2) \<Rightarrow>
                             (case py_input inp2 of
                                Inl x \<Rightarrow> ([CheckCookies], Inl x)
                              | Inr (confirm, inp3) \<Rightarrow>
                                  if py_lower confirm \<noteq> ''y''
                                  then ([CheckCookies], Inl (SystemExit 0))
                                  else
                                    (case process_accounts e [CheckCookies]
                                            usernames reason delay of
                                       (calls, out) \<Rightarrow> (CheckCookies # calls, out)))))))"

fun exit_code :: "py_exc + 'a \<Rightarrow> int" where
  \<comment> \<open>The status the interpreter exits with: 0 when \<open>main\<close> returns, the argument of
      \<open>sys.exit\<close>, 1 for any other exception it does not catch.\<close>
  "exit_code (Inr v) = 0"
| "exit_code (Inl (SystemExit n)) = n"
| "exit_code (Inl x) = 1"

section \<open>Stub sessions for concrete runs\<close>

definition reply :: "int \<Rightarrow> json \<Rightarrow> response option" where
  "reply code body = Some \<lparr>status_code = code, json_body = Some body\<rparr>"

definition identity_body :: "string \<Rightarrow> json" where
  \<comment> \<open>A lookup body carrying the nested identifier.\<close>
  "identity_body uid =
     JObj [(''userInfo'', JObj [(''user'', JObj [(''id'', JStr uid)])])]"

definition stub_sleep :: "pyfloat \<Rightarrow> py_exc option" where
  \<comment> \<open>\<open>time.sleep\<close> on the delays used below: a negative length is a \<open>ValueError\<close>.\<close>
  "stub_sleep d = (if float_lt_zero d then Some ValueError else None)"

definition stub_float :: "string \<Rightarrow> pyfloat option" where
  \<comment> \<open>\<open>float\<close> on the three numerals used below, \<open>ValueError\<close> elsewhere.\<close>
  "stub_float s =
     (if s = ''10'' then Some 0x4024000000000000
      else if s = ''2'' then Some 0x4000000000000000
      else if s = ''-5'' then Some 0xC014000000000000
      else None)"

definition stub :: "(string \<Rightarrow> response option) \<Rightarrow> (json \<Rightarrow> response option) \<Rightarrow> env" where
  \<comment> \<open>A session whose answers depend on the request alone.\<close>
  "stub lookup report =
     \<lparr>session_get = (\<lambda>h uid. lookup uid),
      session_post = (\<lambda>h user_id reason. report user_id),
      time_sleep = stub_sleep,
      py_float = stub_float\<rparr>"

definition scenario_lookup :: "string \<Rightarrow> response option" where
  \<comment> \<open>alice and carol resolve, the probe account answers, everyone else is unknown.\<close>
  "scenario_lookup uid =
     (if uid = ''alice'' then reply 200 (identity_body ''1'')
      else if uid = ''carol'' then reply 200 (identity_body ''3'')
      else if uid = ''tiktok'' then reply 200 (identity_body ''0'')
      else reply 404 JNull)"

definition scenario_report :: "json \<Rightarrow> response option" where
  \<comment> \<open>The report of alice is accepted, any other is rejected with status 5.\<close>
  "scenario_report user_id =
     (if user_id = JStr ''1'' then reply 200 (JObj [(''status_code'', JInt 0)])
      else reply 200 (JObj [(''status_code'', JInt 5)]))"

definition scenario :: env where
  "scenario = stub scenario_lookup scenario_report"

definition no_status_env :: env where
  \<comment> \<open>Every report is answered 200 with a body that has no \<open>status_code\<close>.\<close>
  "no_status_env =
     stub scenario_lookup (\<lambda>user_id. reply 200 (JObj [(''message'', JStr ''rejected'')]))"

definition no_user_env :: env where
  \<comment> \<open>Every lookup is answered 200 with a \<open>userInfo\<close> object that has no \<open>user\<close>.\<close>
  "no_user_env =
     stub (\<lambda>uid. reply 200 (JObj [(''userInfo'', JObj [(''stats'', JObj [])])]))
          scenario_report"


definition float_2 :: pyfloat where
  "float_2 = 0x4000000000000000"

definition float_neg5 :: pyfloat where
  "float_neg5 = 0xC014000000000000"

definition session_cookies :: json where
  "session_cookies = JObj [(''sessionid'', JStr ''0123456789abcdef'')]"

definition answers :: "string \<Rightarrow> string \<Rightarrow> world" where
  \<comment> \<open>A usable cookie file, a handle file with alice, a blank line and carol, and the
      three answers typed at the prompts: an empty line for the reason, then the delay
      and the confirmation.\<close>
  "answers delay_line confirm =
     \<lparr>cookies_file = Loaded session_cookies,
      usernames_file = Loaded [''alice\<newline>'', ''\<newline>'', ''carol\<newline>''],
      stdin = ['''', delay_line, confirm]\<rparr>"



fun is_lookup :: "event \<Rightarrow> bool" where
  "is_lookup (GetUserInfo username) = True"
| "is_lookup ev = False"



definition nonempty_handles :: "string list \<Rightarrow> string list" where
  \<comment> \<open>The entries that are not skipped.\<close>
  "nonempty_handles usernames = filter (\<lambda>raw. normalize raw \<noteq> []) usernames"

definition skipped_entries :: "string list \<Rightarrow> string list" where
  \<comment> \<open>The entries that normalize to the empty handle.\<close>
  "skipped_entries usernames = filter (\<lambda>raw. normalize raw = []) usernames"



text \<open>
  A lookup answer that a resolver stub may give: one that the loop takes as not found, or
  one from which it extracts an identifier.
\<close>

definition resolves_or_not_found :: "json \<Rightarrow> bool" where
  "resolves_or_not_found user_info =
     (case user_not_found user_info of
        Inl x \<Rightarrow> False
      | Inr True \<Rightarrow> True
      | Inr False \<Rightarrow>
          (case extract_user_id user_info of Inl x \<Rightarrow> False | Inr user_id \<Rightarrow> True))"

section \<open>The report submitter\<close>

text \<open>
  C1 (as amended): \<open>report_account\<close> returns success if and only if the transport returned a
  response, its status is 200, its body decodes to an object, and that object's
  \<open>status_code\<close> field is absent or equal to 0. A transport error, another status, an
  undecodable body, a body that is not an object and a non-zero field all give failure;
  a missing field counts as 0, hence as success.
\<close>

theorem report_account_success_iff:
  "report_account e h user_id reason \<longleftrightarrow>
     (\<exists>r kvs. session_post e h user_id reason = Some r \<and> status_code r = 200 \<and>
        json_body r = Some (JObj kvs) \<and>
        (case map_of kvs ''status_code'' of None \<Rightarrow> True | Some v \<Rightarrow> py_eq_0 v))"
proof (cases "session_post e h user_id reason")
  case None
  then show ?thesis by (simp add: report_account_def)
next
  case (Some r)
  show ?thesis
  proof (cases "json_body r")
    case None
    with Some show ?thesis by (simp add: report_account_def)
  next
    case (Some result)
    with \<open>session_post e h user_id reason = Some r\<close> show ?thesis
      by (cases result) (auto simp: report_account_def split: option.splits)
  qed
qed

text \<open>
  The equivalence at three reports: one answered without a status field, one accepted
  with status 0, one rejected with status 5.
\<close>

theorem report_account_success_iff_witness:
  "report_account no_status_env [] (JStr ''1'') 1004 \<and>
   report_account scenario [] (JStr ''1'') 1004 \<and>
   \<not> report_account scenario [] (JStr ''3'') 1004"
  using report_account_success_iff [of no_status_env "[]" "JStr ''1''" 1004]
    report_account_success_iff [of scenario "[]" "JStr ''1''" 1004]
    report_account_success_iff [of scenario "[]" "JStr ''3''" 1004]
  by (simp add: no_status_env_def scenario_def stub_def scenario_report_def reply_def)

text \<open>
  C1 as first stated fails: a 200 response whose body \<open>{"message": "rejected"}\<close> has no
  status field is classified as success, where the specification's rule gives failure.
\<close>

theorem report_account_missing_status_counterexample:
  "report_account no_status_env [] (JStr ''1'') 1004 \<and>
   \<not> spec_submit_success (session_post no_status_env [] (JStr ''1'') 1004)"
  by (simp add: report_account_def spec_submit_success_def no_status_env_def stub_def reply_def)

section \<open>One pass of the loop\<close>

text \<open>
  A pass that returns has skipped an empty handle, or counted a failed lookup, or made a
  report, counted it on one side, and waited unless it was at the last position.
\<close>

lemma iteration_Inr:
  assumes "iteration e h reason delay total_n i raw st = Inr st'"
  shows "(normalize raw = [] \<and> st' = st)
       \<or> (normalize raw \<noteq> [] \<and> success_count st' = success_count st
            \<and> fail_count st' = Suc (fail_count st)
            \<and> trace st' = trace st @ [GetUserInfo (normalize raw)])
       \<or> (normalize raw \<noteq> []
            \<and> ((success_count st' = Suc (success_count st) \<and> fail_count st' = fail_count st)
               \<or> (success_count st' = success_count st \<and> fail_count st' = Suc (fail_count st)))
            \<and> (\<exists>user_id. trace st' =
                  trace st @ GetUserInfo (normalize raw) # ReportAccount user_id reason
                    # (if i < total_n then [Sleep delay] else [])))"
  using assms
  by (auto simp: iteration_def Let_def called_def
      split: if_splits sum.splits bool.splits option.splits)

lemma iteration_Inl:
  assumes "iteration e h reason delay total_n i raw st = Inl (x, st')"
  shows "normalize raw \<noteq> [] \<and> success_count st' + fail_count st' \<le> Suc (success_count st + fail_count st)"
  using assms
  by (auto simp: iteration_def Let_def called_def
      split: if_splits sum.splits bool.splits option.splits)

lemma loop_append:
  "loop e h reason delay total_n i (xs @ ys) st =
     (case loop e h reason delay total_n i xs st of
        Inl x \<Rightarrow> Inl x
      | Inr st' \<Rightarrow> loop e h reason delay total_n (i + length xs) ys st')"
  by (induction xs arbitrary: i st) (auto split: sum.splits)


section \<open>The counters\<close>

lemma loop_counts_Inr:
  "loop e h reason delay total_n i xs st = Inr st' \<Longrightarrow>
     success_count st' + fail_count st' =
       success_count st + fail_count st + length (nonempty_handles xs)"
proof (induction xs arbitrary: i st)
  case Nil
  then show ?case by (simp add: nonempty_handles_def)
next
  case (Cons raw rest)
  from Cons.prems obtain st1 where
    1: "iteration e h reason delay total_n i raw st = Inr st1" and
    2: "loop e h reason delay total_n (Suc i) rest st1 = Inr st'"
    by (auto split: sum.splits)
  from iteration_Inr [OF 1]
  have "success_count st1 + fail_count st1 =
          success_count st + fail_count st + (if normalize raw = [] then 0 else 1)"
    by auto
  with Cons.IH [OF 2] show ?case by (simp add: nonempty_handles_def)
qed

lemma loop_counts_Inl:
  "loop e h reason delay total_n i xs st = Inl (x, st') \<Longrightarrow>
     success_count st' + fail_count st' \<le> success_count st + fail_count st + length xs"
proof (induction xs arbitrary: i st)
  case Nil
  then show ?case by simp
next
  case (Cons raw rest)
  show ?case
  proof (cases "iteration e h reason delay total_n i raw st")
    case (Inl a)
    with Cons.prems have "a = (x, st')" by simp
    with Inl iteration_Inl [of e h reason delay total_n i raw st x st'] show ?thesis by simp
  next
    case (Inr st1)
    with Cons.prems have 2: "loop e h reason delay total_n (Suc i) rest st1 = Inl (x, st')"
      by simp
    from iteration_Inr [OF Inr]
    have "success_count st1 + fail_count st1 \<le> Suc (success_count st + fail_count st)"
      by auto
    with Cons.IH [OF 2] show ?thesis by simp
  qed
qed

lemma length_nonempty_skipped:
  "length (nonempty_handles xs) + length (skipped_entries xs) = length xs"
  by (induction xs) (auto simp: nonempty_handles_def skipped_entries_def)

lemma process_accounts_Inr:
  "process_accounts e h us reason delay = (tr, Inr s) \<longleftrightarrow>
     (\<exists>st. loop e h reason delay (length us) 1 us start = Inr st \<and> tr = trace st \<and>
        s = \<lparr>successful = success_count st, failed = fail_count st,
             total_processed = length us\<rparr>)"
  by (auto simp: process_accounts_def Let_def split: sum.splits prod.splits)

lemma after_passes_Suc:
  assumes "k < length us"
  shows "after_passes e h us reason delay (Suc k) =
     (case after_passes e h us reason delay k of
        Inl x \<Rightarrow> Inl x
      | Inr st \<Rightarrow> iteration e h reason delay (length us) (Suc k) (us ! k) st)"
proof -
  from assms have "take (Suc k) us = take k us @ [us ! k]"
    by (rule take_Suc_conv_app_nth)
  then show ?thesis using assms
    by (simp add: after_passes_def loop_append split: sum.splits)
qed

lemma iteration_completes:
  assumes "resolves_or_not_found (get_user_info e (h @ trace st) (normalize raw))"
    and "time_sleep e delay = None"
  shows "\<exists>st'. iteration e h reason delay total_n i raw st = Inr st'"
  using assms
  by (auto simp: iteration_def Let_def resolves_or_not_found_def
      split: sum.splits bool.splits)

lemma loop_completes:
  assumes "\<forall>h' u. resolves_or_not_found (get_user_info e h' u)"
    and "time_sleep e delay = None"
  shows "\<exists>st'. loop e h reason delay total_n i xs st = Inr st'"
proof (induction xs arbitrary: i st)
  case Nil
  show ?case by simp
next
  case (Cons raw rest)
  from assms have "resolves_or_not_found (get_user_info e (h @ trace st) (normalize raw))"
    by blast
  from iteration_completes [OF this assms(2)]
  obtain st1 where "iteration e h reason delay total_n i raw st = Inr st1" by blast
  with Cons.IH [of "Suc i" st1] show ?case by simp
qed

subsection \<open>Concrete runs\<close>

text \<open>
  The runs used below, evaluated once. In \<open>scenario\<close> alice resolves and her report is
  accepted, bob is unknown, carol resolves and her report is rejected.
\<close>

lemma run_four_entries:
  "process_accounts scenario [] [''alice'', ''@bob'', ''  '', ''carol''] 1004 float_2 =
     ([GetUserInfo ''alice'', ReportAccount (JStr ''1'') 1004, Sleep float_2,
       GetUserInfo ''bob'', GetUserInfo ''carol'', ReportAccount (JStr ''3'') 1004],
      Inr \<lparr>successful = 1, failed = 2, total_processed = 4\<rparr>)"
  by code_simp

lemma run_four_entries_after_2:
  "after_passes scenario [] [''alice'', ''@bob'', ''  '', ''carol''] 1004 float_2 2 =
     Inr \<lparr>success_count = 1, fail_count = 1,
          trace = [GetUserInfo ''alice'', ReportAccount (JStr ''1'') 1004, Sleep float_2,
                   GetUserInfo ''bob'']\<rparr>"
  by code_simp

lemma run_four_entries_after_3:
  "after_passes scenario [] [''alice'', ''@bob'', ''  '', ''carol''] 1004 float_2 3 =
     Inr \<lparr>success_count = 1, fail_count = 1,
          trace = [GetUserInfo ''alice'', ReportAccount (JStr ''1'') 1004, Sleep float_2,
                   GetUserInfo ''bob'']\<rparr>"
  by code_simp

lemma run_four_entries_skipped:
  "skipped_entries [''alice'', ''@bob'', ''  '', ''carol''] = [''  '']"
  by code_simp

lemma run_negative_delay_after_1:
  "after_passes scenario [] [''alice'', ''carol''] 1004 float_neg5 1 =
     Inl (ValueError, \<lparr>success_count = 1, fail_count = 0,
          trace = [GetUserInfo ''alice'', ReportAccount (JStr ''1'') 1004, Sleep float_neg5]\<rparr>)"
  by code_simp

lemma run_three_entries:
  "process_accounts scenario [] [''alice'', ''@bob'', ''carol''] 1004 float_2 =
     ([GetUserInfo ''alice'', ReportAccount (JStr ''1'') 1004, Sleep float_2,
       GetUserInfo ''bob'', GetUserInfo ''carol'', ReportAccount (JStr ''3'') 1004],
      Inr \<lparr>successful = 1, failed = 2, total_processed = 3\<rparr>)"
  by code_simp

lemma run_three_entries_nonempty:
  "nonempty_handles [''alice'', ''@bob'', ''carol''] = [''alice'', ''@bob'', ''carol'']"
  by code_simp

lemma run_three_entries_all_nonempty:
  "list_all (\<lambda>raw. normalize raw \<noteq> []) [''alice'', ''@bob'', ''carol'']"
  by code_simp

lemma scenario_sleep: "time_sleep scenario float_2 = None"
  by code_simp

lemma scenario_resolves: "resolves_or_not_found (get_user_info scenario h' u)"
  by (simp add: get_user_info_def scenario_def stub_def scenario_lookup_def reply_def
      identity_body_def resolves_or_not_found_def user_not_found_def extract_user_id_def)

section \<open>The resolver\<close>

text \<open>
  C2 (the code departs from the claim): a lookup answered 200 with the body
  \<open>{"userInfo": {"stats": {}}}\<close>, a \<open>userInfo\<close> object without a \<open>user\<close> field, is
  not taken as not found. The unguarded \<open>user_info['userInfo']['user']['id']\<close> raises
  \<open>KeyError\<close>, which leaves \<open>process_accounts\<close>: nothing is tallied for alice and bob is
  never looked up.
\<close>

theorem process_accounts_missing_user_aborts:
  "process_accounts no_user_env [] [''alice'', ''bob''] 1004 float_2 =
     ([GetUserInfo ''alice''], Inl KeyError)"
  by (simp add: process_accounts_def iteration_def normalize_def py_strip_def py_isspace_def
      get_user_info_def no_user_env_def stub_def reply_def user_not_found_def
      extract_user_id_def called_def start_def)

section \<open>The summary\<close>

text \<open>
  C3 (as amended): the total printed in the summary is the length of the list given to
  \<open>process_accounts\<close>, entries that normalize to empty included; when the run completes,
  successes plus failures is the number of entries that are non-empty after normalization.
  With a resolver that answers every lookup by an identity or by not-found and a wait that
  returns, a list of N entries that are all non-empty after normalization is processed to
  completion with successes + failures = N and total = N.
\<close>

theorem summary_counts:
  "(process_accounts e h us reason delay = (tr, Inr s) \<longrightarrow>
      total_processed s = length us \<and>
      successful s + failed s = length (nonempty_handles us))
   \<and> ((\<forall>h' u. resolves_or_not_found (get_user_info e h' u)) \<and> time_sleep e delay = None \<and>
       (\<forall>raw \<in> set us. normalize raw \<noteq> []) \<longrightarrow>
      (\<exists>tr' s'. process_accounts e h us reason delay = (tr', Inr s') \<and>
         successful s' + failed s' = length us \<and> total_processed s' = length us))"
proof (intro conjI impI)
  assume "process_accounts e h us reason delay = (tr, Inr s)"
  then obtain st where l: "loop e h reason delay (length us) 1 us start = Inr st"
    and s: "s = \<lparr>successful = success_count st, failed = fail_count st,
                  total_processed = length us\<rparr>"
    by (auto simp: process_accounts_Inr)
  from s show "total_processed s = length us" by simp
  from loop_counts_Inr [OF l] s
  show "successful s + failed s = length (nonempty_handles us)"
    by (simp add: start_def)
next
  assume a: "(\<forall>h' u. resolves_or_not_found (get_user_info e h' u)) \<and>
     time_sleep e delay = None \<and> (\<forall>raw \<in> set us. normalize raw \<noteq> [])"
  then obtain st where l: "loop e h reason delay (length us) 1 us start = Inr st"
    using loop_completes [of e delay h reason "length us" 1 us start] by blast
  let ?s = "\<lparr>successful = success_count st, failed = fail_count st,
              total_processed = length us\<rparr>"
  from l have p: "process_accounts e h us reason delay = (trace st, Inr ?s)"
    by (simp add: process_accounts_Inr)
  from a have "nonempty_handles us = us"
    by (simp add: nonempty_handles_def)
  with loop_counts_Inr [OF l] have "successful ?s + failed ?s = length us"
    by (simp add: start_def)
  with p show "\<exists>tr' s'. process_accounts e h us reason delay = (tr', Inr s') \<and>
         successful s' + failed s' = length us \<and> total_processed s' = length us"
    by (intro exI [of _ "trace st"] exI [of _ ?s]) simp
qed

theorem summary_counts_witness:
  "process_accounts scenario [] [''alice'', ''@bob'', ''carol''] 1004 float_2 =
     ([GetUserInfo ''alice'', ReportAccount (JStr ''1'') 1004, Sleep float_2,
       GetUserInfo ''bob'', GetUserInfo ''carol'', ReportAccount (JStr ''3'') 1004],
      Inr \<lparr>successful = 1, failed = 2, total_processed = 3\<rparr>)
   \<and> length (nonempty_handles [''alice'', ''@bob'', ''carol'']) = 3
   \<and> time_sleep scenario float_2 = None
   \<and> (\<forall>h' u. resolves_or_not_found (get_user_info scenario h' u))"
  using summary_counts [of scenario "[]" "[''alice'', ''@bob'', ''carol'']" 1004 float_2
      "[GetUserInfo ''alice'', ReportAccount (JStr ''1'') 1004, Sleep float_2,
        GetUserInfo ''bob'', GetUserInfo ''carol'', ReportAccount (JStr ''3'') 1004]"
      "\<lparr>successful = 1, failed = 2, total_processed = 3\<rparr>"]
    run_three_entries_all_nonempty
  by (simp only: run_three_entries run_three_entries_nonempty scenario_sleep
      scenario_resolves list_all_iff) simp

text \<open>
  C3 as first stated fails: for the list \<open>["@"]\<close> the printed total is 1 although no
  handle is non-empty after normalization, and for the four entries
  \<open>["alice", "@bob", "  ", "carol"]\<close> it is 4 although three are.
\<close>

theorem summary_total_counterexample:
  "snd (process_accounts scenario [] [''@''] 1004 float_2) =
     Inr \<lparr>successful = 0, failed = 0, total_processed = 1\<rparr>
   \<and> length (nonempty_handles [''@'']) = 0
   \<and> snd (process_accounts scenario [] [''alice'', ''@bob'', ''  '', ''carol''] 1004 float_2) =
     Inr \<lparr>successful = 1, failed = 2, total_processed = 4\<rparr>
   \<and> length (nonempty_handles [''alice'', ''@bob'', ''  '', ''carol'']) = 3"
  by code_simp

section \<open>The tally\<close>

text \<open>
  What holds of the tally in every run. After any number of passes, and also in the state
  in which an exception leaves the loop, successes plus failures is at most the total;
  when the run completes, successes plus failures plus the number of skipped entries
  (those that normalize to empty) is the total; and a pass that returns changes the tally
  exactly once for a non-empty handle, adding one to exactly one of the two counters
  whether the lookup was not found, the report failed or the report succeeded, and not at
  all for a skipped entry.
\<close>

theorem tally_invariant:
  "(after_passes e h us reason delay k = Inr st \<longrightarrow>
      success_count st + fail_count st = length (nonempty_handles (take k us)) \<and>
      success_count st + fail_count st \<le> length us)
   \<and> (after_passes e h us reason delay k = Inl (x, st) \<longrightarrow>
      success_count st + fail_count st \<le> length us)
   \<and> (process_accounts e h us reason delay = (tr, Inr s) \<longrightarrow>
      successful s + failed s \<le> total_processed s \<and>
      successful s + failed s + length (skipped_entries us) = total_processed s)
   \<and> (k < length us \<and> after_passes e h us reason delay k = Inr st \<and>
      after_passes e h us reason delay (Suc k) = Inr st' \<longrightarrow>
      (if normalize (us ! k) = []
       then success_count st' = success_count st \<and> fail_count st' = fail_count st
       else (success_count st' = success_count st + 1 \<and> fail_count st' = fail_count st)
          \<or> (success_count st' = success_count st \<and> fail_count st' = fail_count st + 1)))"
proof (intro conjI impI)
  assume a: "after_passes e h us reason delay k = Inr st"
  then have "success_count st + fail_count st = length (nonempty_handles (take k us))"
    using loop_counts_Inr [of e h reason delay "length us" 1 "take k us" start st]
    by (simp add: after_passes_def start_def)
  then show "success_count st + fail_count st = length (nonempty_handles (take k us))" .
  moreover have "length (nonempty_handles (take k us)) \<le> length (take k us)"
    unfolding nonempty_handles_def by (rule length_filter_le)
  moreover have "length (take k us) \<le> length us" by simp
  ultimately show "success_count st + fail_count st \<le> length us" by linarith
next
  assume "after_passes e h us reason delay k = Inl (x, st)"
  then have "success_count st + fail_count st \<le> length (take k us)"
    using loop_counts_Inl [of e h reason delay "length us" 1 "take k us" start x st]
    by (simp add: after_passes_def start_def)
  then show "success_count st + fail_count st \<le> length us" by simp
next
  assume "process_accounts e h us reason delay = (tr, Inr s)"
  then obtain st where l: "loop e h reason delay (length us) 1 us start = Inr st"
    and s: "s = \<lparr>successful = success_count st, failed = fail_count st,
                  total_processed = length us\<rparr>"
    by (auto simp: process_accounts_Inr)
  from loop_counts_Inr [OF l]
  have c: "success_count st + fail_count st = length (nonempty_handles us)"
    by (simp add: start_def)
  with s length_nonempty_skipped [of us]
  show "successful s + failed s + length (skipped_entries us) = total_processed s"
    by simp
  with s show "successful s + failed s \<le> total_processed s" by simp
next
  assume a: "k < length us \<and> after_passes e h us reason delay k = Inr st \<and>
      after_passes e h us reason delay (Suc k) = Inr st'"
  then have k: "k < length us"
    and p: "after_passes e h us reason delay k = Inr st"
    and q: "after_passes e h us reason delay (Suc k) = Inr st'"
    by simp_all
  from after_passes_Suc [OF k, of e h reason delay] p q
  have "iteration e h reason delay (length us) (Suc k) (us ! k) st = Inr st'"
    by simp
  from iteration_Inr [OF this]
  show "if normalize (us ! k) = []
       then success_count st' = success_count st \<and> fail_count st' = fail_count st
       else (success_count st' = success_count st + 1 \<and> fail_count st' = fail_count st)
          \<or> (success_count st' = success_count st \<and> fail_count st' = fail_count st + 1)"
    by auto
qed

theorem tally_invariant_witness:
  "after_passes scenario [] [''alice'', ''@bob'', ''  '', ''carol''] 1004 float_2 2 =
     Inr \<lparr>success_count = 1, fail_count = 1,
          trace = [GetUserInfo ''alice'', ReportAccount (JStr ''1'') 1004, Sleep float_2,
                   GetUserInfo ''bob'']\<rparr>
   \<and> after_passes scenario [] [''alice'', ''@bob'', ''  '', ''carol''] 1004 float_2 3 =
     Inr \<lparr>success_count = 1, fail_count = 1,
          trace = [GetUserInfo ''alice'', ReportAccount (JStr ''1'') 1004, Sleep float_2,
                   GetUserInfo ''bob'']\<rparr>
   \<and> snd (process_accounts scenario [] [''alice'', ''@bob'', ''  '', ''carol''] 1004 float_2) =
     Inr \<lparr>successful = 1, failed = 2, total_processed = 4\<rparr>
   \<and> length (skipped_entries [''alice'', ''@bob'', ''  '', ''carol'']) = 1
   \<and> after_passes scenario [] [''alice'', ''carol''] 1004 float_neg5 1 =
     Inl (ValueError, \<lparr>success_count = 1, fail_count = 0,
          trace = [GetUserInfo ''alice'', ReportAccount (JStr ''1'') 1004, Sleep float_neg5]\<rparr>)"
  using tally_invariant [of scenario "[]" "[''alice'', ''@bob'', ''  '', ''carol'']" 1004 float_2 2
      "\<lparr>success_count = 1, fail_count = 1,
          trace = [GetUserInfo ''alice'', ReportAccount (JStr ''1'') 1004, Sleep float_2,
                   GetUserInfo ''bob'']\<rparr>" ValueError
      "[GetUserInfo ''alice'', ReportAccount (JStr ''1'') 1004, Sleep float_2,
        GetUserInfo ''bob'', GetUserInfo ''carol'', ReportAccount (JStr ''3'') 1004]"
      "\<lparr>successful = 1, failed = 2, total_processed = 4\<rparr>"
      "\<lparr>success_count = 1, fail_count = 1,
          trace = [GetUserInfo ''alice'', ReportAccount (JStr ''1'') 1004, Sleep float_2,
                   GetUserInfo ''bob'']\<rparr>"]
    tally_invariant [of scenario "[]" "[''alice'', ''carol'']" 1004 float_neg5 1
      "\<lparr>success_count = 1, fail_count = 0,
          trace = [GetUserInfo ''alice'', ReportAccount (JStr ''1'') 1004, Sleep float_neg5]\<rparr>"
      ValueError]
  by (simp only: run_four_entries run_four_entries_after_2 run_four_entries_after_3
      run_negative_delay_after_1 run_four_entries_skipped snd_conv list.size) simp

text \<open>
  C5 (the code departs from the claim): the bound on successes plus failures and the
  equality at completion hold as \<open>tally_invariant\<close> states them, but the tally is not
  changed once for every non-empty handle whatever stage failed. When the lookup of alice
  is answered by a \<open>userInfo\<close> object without a \<open>user\<close> field, her resolve stage fails
  with a \<open>KeyError\<close> that leaves the loop with both counters still at 0, and bob is
  never counted either.
\<close>

theorem tally_untouched_when_resolve_raises:
  "after_passes no_user_env [] [''alice'', ''bob''] 1004 float_2 1 =
     Inl (KeyError, \<lparr>success_count = 0, fail_count = 0, trace = [GetUserInfo ''alice'']\<rparr>)
   \<and> after_passes no_user_env [] [''alice'', ''bob''] 1004 float_2 2 =
     Inl (KeyError, \<lparr>success_count = 0, fail_count = 0, trace = [GetUserInfo ''alice'']\<rparr>)
   \<and> nonempty_handles [''alice'', ''bob''] = [''alice'', ''bob'']"
  by code_simp

section \<open>The delay\<close>

















section \<open>Normalization\<close>

lemma split_trailing:
  "xs = rev (dropWhile P (rev xs)) @ rev (takeWhile P (rev xs))"
proof -
  have "rev (takeWhile P (rev xs) @ dropWhile P (rev xs)) = rev (rev xs)"
    by (simp only: takeWhile_dropWhile_id)
  then have "rev (dropWhile P (rev xs)) @ rev (takeWhile P (rev xs)) = xs"
    by (simp only: rev_append rev_rev_ident)
  then show ?thesis by (rule sym)
qed

lemma py_strip_decomposition:
  "\<exists>a b. s = a @ py_strip s @ b \<and> list_all py_isspace a \<and> list_all py_isspace b"
proof -
  let ?a = "takeWhile py_isspace s"
  let ?m = "dropWhile py_isspace s"
  let ?b = "rev (takeWhile py_isspace (rev ?m))"
  have m: "?m = py_strip s @ ?b"
    unfolding py_strip_def by (rule split_trailing)
  have "s = ?a @ ?m" by simp
  with m have "s = ?a @ py_strip s @ ?b" by simp
  moreover have "list_all py_isspace ?a"
    by (simp add: list_all_iff) (meson set_takeWhileD)
  moreover have "list_all py_isspace ?b"
    by (simp add: list_all_iff) (meson set_takeWhileD)
  ultimately show ?thesis by blast
qed

lemma py_strip_ends:
  assumes "py_strip s \<noteq> []"
  shows "\<not> py_isspace (hd (py_strip s)) \<and> \<not> py_isspace (last (py_strip s))"
proof -
  let ?m = "dropWhile py_isspace s"
  let ?d = "dropWhile py_isspace (rev ?m)"
  from assms have d: "?d \<noteq> []"
    unfolding py_strip_def by (simp only: rev_is_Nil_conv not_False_eq_True)
  then have l: "\<not> py_isspace (hd ?d)" by (rule hd_dropWhile)
  have "last (py_strip s) = hd ?d"
    unfolding py_strip_def by (rule last_rev)
  with l have 1: "\<not> py_isspace (last (py_strip s))" by simp
  have m: "?m \<noteq> []"
  proof
    assume a: "?m = []"
    have "?d = []" unfolding a by simp
    with d show False ..
  qed
  then have hm: "\<not> py_isspace (hd ?m)" by (rule hd_dropWhile)
  have "?m = py_strip s @ rev (takeWhile py_isspace (rev ?m))"
    unfolding py_strip_def by (rule split_trailing)
  with assms have "hd ?m = hd (py_strip s)" by (metis hd_append2)
  with hm have "\<not> py_isspace (hd (py_strip s))" by simp
  with 1 show ?thesis by simp
qed

lemma normalize_agrees_iff:
  "normalize raw = spec_normalize raw \<longleftrightarrow> CHR ''@'' \<notin> set (spec_normalize raw)"
proof (cases "py_strip raw")
  case Nil
  then show ?thesis by (simp add: normalize_def spec_normalize_def)
next
  case (Cons c cs)
  have *: "filter (\<lambda>c. c \<noteq> CHR ''@'') cs = cs \<longleftrightarrow> CHR ''@'' \<notin> set cs"
    by (auto simp: filter_id_conv)
  from Cons show ?thesis
    using * by (auto simp: normalize_def spec_normalize_def)
qed

text \<open>
  C6 (as amended): normalization trims the surrounding whitespace and then removes every
  occurrence of the marker character "@", not only a leading one; the other characters
  are kept in their order. It gives the same handle as trimming and dropping one leading
  marker exactly when that handle contains no further "@". An entry that normalizes to
  empty is skipped: its pass leaves the counters and the calls as they were, so no lookup
  and no report is made for it.
\<close>

theorem normalize_removes_every_marker:
  "(\<exists>a b. raw = a @ py_strip raw @ b \<and> list_all py_isspace a \<and> list_all py_isspace b)
   \<and> (py_strip raw \<noteq> [] \<longrightarrow>
        \<not> py_isspace (hd (py_strip raw)) \<and> \<not> py_isspace (last (py_strip raw)))
   \<and> normalize raw = filter (\<lambda>c. c \<noteq> CHR ''@'') (py_strip raw)
   \<and> (normalize raw = spec_normalize raw \<longleftrightarrow> CHR ''@'' \<notin> set (spec_normalize raw))
   \<and> (normalize raw = [] \<longrightarrow> iteration e h reason delay total_n i raw st = Inr st)"
  using py_strip_decomposition [of raw] py_strip_ends [of raw] normalize_agrees_iff [of raw]
  by (simp add: normalize_def iteration_def)

theorem normalize_removes_every_marker_witness:
  "normalize '' @bob '' = ''bob'' \<and> spec_normalize '' @bob '' = ''bob''
   \<and> normalize ''  @ '' = [] \<and> iteration scenario [] 1004 float_2 2 1 ''  @ '' start = Inr start"
  using normalize_removes_every_marker [of "'' @bob ''" scenario "[]" 1004 float_2 2 1 start]
    normalize_removes_every_marker [of "''  @ ''" scenario "[]" 1004 float_2 2 1 start]
  by (simp add: normalize_def spec_normalize_def py_strip_def py_isspace_def)

text \<open>
  C6 as first stated fails: the interior marker of \<open>"a@b"\<close> is removed.
\<close>

theorem normalize_interior_marker_counterexample:
  "normalize ''a@b'' = ''ab'' \<and> spec_normalize ''a@b'' = ''a@b''"
  by (simp add: normalize_def spec_normalize_def py_strip_def py_isspace_def)

section \<open>The reason prompt\<close>

lemma reasons_codes: "map_of reasons choice = Some code \<Longrightarrow> code \<in> {1001..1008}"
  by (auto simp: reasons_def split: if_splits)

lemma get_report_reason_range:
  "get_report_reason inp = Inr (code, left) \<Longrightarrow> code \<in> {1001..1008}"
proof (induction inp)
  case Nil
  then show ?case by simp
next
  case (Cons line rest)
  then show ?case
    by (auto simp: Let_def split: option.splits if_splits dest: reasons_codes)
qed

lemma reasons_lookup:
  "map_of reasons choice =
     (if choice = ''1'' then Some 1001 else if choice = ''2'' then Some 1002
      else if choice = ''3'' then Some 1003 else if choice = ''4'' then Some 1004
      else if choice = ''5'' then Some 1005 else if choice = ''6'' then Some 1006
      else if choice = ''7'' then Some 1007 else if choice = ''8'' then Some 1008
      else None)"
  by (simp add: reasons_def)

lemma get_report_reason_blank:
  "py_strip line = [] \<Longrightarrow> get_report_reason (line # rest) = Inr (1004, rest)"
  by (simp add: reasons_lookup)

lemma get_report_reason_invalid:
  assumes "py_strip line \<noteq> []"
    and "\<forall>c \<in> set ''12345678''. py_strip line \<noteq> [c]"
  shows "get_report_reason (line # rest) = get_report_reason rest"
  using assms by (simp add: reasons_lookup)

lemma get_report_reason_valid:
  assumes "(py_strip line, code) \<in>
      {(''1'', 1001), (''2'', 1002), (''3'', 1003), (''4'', 1004),
       (''5'', 1005), (''6'', 1006), (''7'', 1007), (''8'', 1008)}"
  shows "get_report_reason (line # rest) = Inr (code, rest)"
  using assms by (auto simp: reasons_lookup)

text \<open>
  C7: on an empty input line, and on any line that is empty once trimmed, the reason
  prompt returns 1004, the code of the menu entry "Other (default)". On every other line
  whose trimmed text is not one of the one-digit keys "1" to "8", such as the out-of-range
  "9", it
  returns nothing and goes on to the next line. On a line whose trimmed text is one of the
  keys it returns that key's code. Whatever it returns is one of the codes 1001 to 1008.
\<close>

theorem get_report_reason_default_reprompt_range:
  "(py_strip line = [] \<longrightarrow> get_report_reason (line # rest) = Inr (1004, rest))
   \<and> get_report_reason ([] # rest) = Inr (1004, rest)
   \<and> map_of menu ''4'' = Some ''Other (default)''
   \<and> (py_strip line \<noteq> [] \<and> (\<forall>c \<in> set ''12345678''. py_strip line \<noteq> [c]) \<longrightarrow>
        get_report_reason (line # rest) = get_report_reason rest)
   \<and> get_report_reason (''9'' # rest) = get_report_reason rest
   \<and> ((py_strip line, choice_code) \<in>
        {(''1'', 1001), (''2'', 1002), (''3'', 1003), (''4'', 1004),
         (''5'', 1005), (''6'', 1006), (''7'', 1007), (''8'', 1008)} \<longrightarrow>
        get_report_reason (line # rest) = Inr (choice_code, rest))
   \<and> (get_report_reason inp = Inr (code, left) \<longrightarrow> code \<in> {1001..1008})"
proof (intro conjI impI)
  assume "py_strip line = []"
  then show "get_report_reason (line # rest) = Inr (1004, rest)"
    by (rule get_report_reason_blank)
next
  have "py_strip [] = []" by (simp add: py_strip_def)
  then show "get_report_reason ([] # rest) = Inr (1004, rest)"
    by (rule get_report_reason_blank)
next
  show "map_of menu ''4'' = Some ''Other (default)''"
    by (simp add: menu_def)
next
  assume "py_strip line \<noteq> [] \<and> (\<forall>c \<in> set ''12345678''. py_strip line \<noteq> [c])"
  then show "get_report_reason (line # rest) = get_report_reason rest"
    using get_report_reason_invalid [of line rest] by blast
next
  have "py_strip ''9'' = ''9''" by code_simp
  then show "get_report_reason (''9'' # rest) = get_report_reason rest"
    using get_report_reason_invalid [of "''9''" rest] by simp
next
  assume "(py_strip line, choice_code) \<in>
        {(''1'', 1001), (''2'', 1002), (''3'', 1003), (''4'', 1004),
         (''5'', 1005), (''6'', 1006), (''7'', 1007), (''8'', 1008)}"
  then show "get_report_reason (line # rest) = Inr (choice_code, rest)"
    by (rule get_report_reason_valid)
next
  assume "get_report_reason inp = Inr (code, left)"
  then show "code \<in> {1001..1008}" by (rule get_report_reason_range)
qed

lemma reason_prompt_runs:
  "get_report_reason [''abc'', ''0'', ''10'', '' 7 '', ''x''] = Inr (1007, [''x''])"
  "get_report_reason [''0'', ''3''] = Inr (1003, [])"
  "get_report_reason [''  '', ''x''] = Inr (1004, [''x''])"
  "get_report_reason [''9''] = Inl EOFError"
  "py_strip ''abc'' = ''abc''" "py_strip ''0'' = ''0''" "py_strip '' 7 '' = ''7''"
  "py_strip ''  '' = []"
  by code_simp+

theorem get_report_reason_default_reprompt_range_witness:
  "get_report_reason [''abc'', ''0'', ''10'', '' 7 '', ''x''] = Inr (1007, [''x''])
   \<and> get_report_reason [''0'', ''3''] = Inr (1003, [])
   \<and> get_report_reason [''  '', ''x''] = Inr (1004, [''x''])
   \<and> get_report_reason [''9''] = Inl EOFError
   \<and> py_strip ''abc'' = ''abc'' \<and> py_strip ''0'' = ''0'' \<and> py_strip '' 7 '' = ''7''
   \<and> py_strip ''  '' = []"
  using get_report_reason_default_reprompt_range [of "''abc''" "[''0'', ''10'', '' 7 '', ''x'']"]
    get_report_reason_default_reprompt_range [of "''0''" "[''3'']"]
    get_report_reason_default_reprompt_range [of "'' 7 ''" "[''x'']" 1007 "[''abc'', ''0'', ''10'', '' 7 '', ''x'']" 1007 "[''x'']"]
    get_report_reason_default_reprompt_range [of "''  ''" "[''x'']"]
  by (simp only: reason_prompt_runs)

section \<open>Startup, confirmation and exit codes\<close>



lemma load_usernames_Inl: "load_usernames f = Inl x \<Longrightarrow> x = SystemExit 1"
  by (cases f) auto




lemma main_at_confirmation:
  assumes "load_cookies (cookies_file w) = Inr cookies"
    and "check_cookies_valid e []"
    and "load_usernames (usernames_file w) = Inr us" and "us \<noteq> []"
    and "get_report_reason (stdin w) = Inr (reason, inp1)"
    and "get_delay e inp1 = Inr (delay, confirm # inp3)"
  shows "main e w =
     (if py_lower confirm \<noteq> ''y'' then ([CheckCookies], Inl (SystemExit 0))
      else (CheckCookies # fst (process_accounts e [CheckCookies] us reason delay),
            snd (process_accounts e [CheckCookies] us reason delay)))"
  using assms by (simp add: main_def split: prod.splits)








lemma answers_startup:
  "load_cookies (cookies_file (answers delay_line confirm)) = Inr session_cookies"
  "check_cookies_valid scenario []"
  "load_usernames (usernames_file (answers delay_line confirm)) = Inr [''alice'', ''carol'']"
  "get_report_reason (stdin (answers delay_line confirm)) = Inr (1004, [delay_line, confirm])"
     apply (simp add: answers_def session_cookies_def)
    apply code_simp
   apply (simp add: answers_def py_strip_def py_isspace_def)
  apply (simp add: answers_def reasons_def py_strip_def)
  done

lemma scenario_delays:
  "get_delay scenario [''2'', confirm] = Inr (float_2, [confirm])"
  "py_float scenario ''-5'' = Some float_neg5"
  "time_sleep scenario float_neg5 = Some ValueError"
  "float_lt_zero float_neg5"
     apply (simp add: get_delay_def scenario_def stub_def stub_float_def float_2_def)
    apply code_simp
   apply code_simp
  apply code_simp
  done

lemma scenario_alice:
  "normalize ''alice'' = ''alice''"
  "user_not_found (get_user_info scenario [CheckCookies] ''alice'') = Inr False"
  "extract_user_id (get_user_info scenario [CheckCookies] ''alice'') = Inr (JStr ''1'')"
  by code_simp+

lemma lowered:
  "py_lower ''y'' = ''y''" "py_lower ''Y'' = ''y''" "py_lower ''yes'' = ''yes''"
  "py_lower ''n'' = ''n''" "py_lower '' y'' = '' y''"
  by code_simp+



text \<open>
  C9: once the startup has passed and the reason and the delay are read, \<open>main\<close> goes
  on to \<open>process_accounts\<close> if and only if the lowercased answer is exactly "y";
  with any other answer it makes no further call and exits with code 0. The answer is not
  trimmed, so "yes" and " y" abort, while "Y" proceeds.
\<close>

theorem confirmation_gate:
  "(load_cookies (cookies_file w) = Inr cookies \<and> check_cookies_valid e [] \<and>
      load_usernames (usernames_file w) = Inr us \<and> us \<noteq> [] \<and>
      get_report_reason (stdin w) = Inr (reason, inp1) \<and>
      get_delay e inp1 = Inr (delay, confirm # inp3)
     \<longrightarrow> (py_lower confirm = ''y'' \<longrightarrow>
            main e w =
              (CheckCookies # fst (process_accounts e [CheckCookies] us reason delay),
               snd (process_accounts e [CheckCookies] us reason delay)))
        \<and> (py_lower confirm \<noteq> ''y'' \<longrightarrow>
            main e w = ([CheckCookies], Inl (SystemExit 0)) \<and>
            exit_code (snd (main e w)) = 0))
   \<and> py_lower ''yes'' \<noteq> ''y'' \<and> py_lower ''Y'' = ''y'' \<and> py_lower '' y'' \<noteq> ''y''"
proof (intro conjI impI)
  assume a: "load_cookies (cookies_file w) = Inr cookies \<and> check_cookies_valid e [] \<and>
      load_usernames (usernames_file w) = Inr us \<and> us \<noteq> [] \<and>
      get_report_reason (stdin w) = Inr (reason, inp1) \<and>
      get_delay e inp1 = Inr (delay, confirm # inp3)"
  then have m: "main e w =
     (if py_lower confirm \<noteq> ''y'' then ([CheckCookies], Inl (SystemExit 0))
      else (CheckCookies # fst (process_accounts e [CheckCookies] us reason delay),
            snd (process_accounts e [CheckCookies] us reason delay)))"
    using main_at_confirmation [of w cookies e us reason inp1 delay confirm inp3] by blast
  {
    assume "py_lower confirm = ''y''"
    with m show "main e w =
              (CheckCookies # fst (process_accounts e [CheckCookies] us reason delay),
               snd (process_accounts e [CheckCookies] us reason delay))"
      by simp
  }
  {
    assume n: "py_lower confirm \<noteq> ''y''"
    with m show "main e w = ([CheckCookies], Inl (SystemExit 0))" by simp
    with m n show "exit_code (snd (main e w)) = 0" by simp
  }
qed (simp_all add: lowered)

lemma run_after_probe:
  "process_accounts scenario [CheckCookies] [''alice'', ''carol''] 1004 float_2 =
     ([GetUserInfo ''alice'', ReportAccount (JStr ''1'') 1004, Sleep float_2,
       GetUserInfo ''carol'', ReportAccount (JStr ''3'') 1004],
      Inr \<lparr>successful = 1, failed = 1, total_processed = 2\<rparr>)"
  by code_simp

theorem confirmation_gate_witness:
  "main scenario (answers ''2'' ''Y'') =
     ([CheckCookies, GetUserInfo ''alice'', ReportAccount (JStr ''1'') 1004, Sleep float_2,
       GetUserInfo ''carol'', ReportAccount (JStr ''3'') 1004],
      Inr \<lparr>successful = 1, failed = 1, total_processed = 2\<rparr>)
   \<and> main scenario (answers ''2'' ''yes'') = ([CheckCookies], Inl (SystemExit 0))
   \<and> exit_code (snd (main scenario (answers ''2'' ''yes''))) = 0"
  using confirmation_gate [of "answers ''2'' ''Y''" session_cookies scenario
      "[''alice'', ''carol'']" 1004 "[''2'', ''Y'']" float_2 "''Y''" "[]"]
    confirmation_gate [of "answers ''2'' ''yes''" session_cookies scenario
      "[''alice'', ''carol'']" 1004 "[''2'', ''yes'']" float_2 "''yes''" "[]"]
  by (simp add: answers_startup scenario_delays lowered run_after_probe)

section \<open>The delay prompt\<close>

lemma iteration_trace_grows:
  "iteration e h reason delay total_n i raw st = Inl (x, st') \<or>
   iteration e h reason delay total_n i raw st = Inr st' \<Longrightarrow>
     \<exists>new. trace st' = trace st @ new"
  by (auto simp: iteration_def Let_def called_def
      split: if_splits sum.splits bool.splits option.splits)

lemma loop_trace_grows:
  "loop e h reason delay total_n i xs st = Inl (x, st') \<or>
   loop e h reason delay total_n i xs st = Inr st' \<Longrightarrow>
     \<exists>new. trace st' = trace st @ new"
proof (induction xs arbitrary: i st)
  case Nil
  then show ?case by simp
next
  case (Cons raw rest)
  show ?case
  proof (cases "iteration e h reason delay total_n i raw st")
    case (Inl a)
    with Cons.prems have "iteration e h reason delay total_n i raw st = Inl (x, st')" by simp
    then show ?thesis using iteration_trace_grows by blast
  next
    case (Inr st1)
    with Cons.prems have "loop e h reason delay total_n (Suc i) rest st1 = Inl (x, st') \<or>
        loop e h reason delay total_n (Suc i) rest st1 = Inr st'"
      by simp
    from Cons.IH [OF this] obtain b where b: "trace st' = trace st1 @ b" by blast
    from Inr iteration_trace_grows [of e h reason delay total_n i raw st x st1]
    obtain a where "trace st1 = trace st @ a" by blast
    with b have "trace st' = trace st @ (a @ b)" by simp
    then show ?thesis by blast
  qed
qed

text \<open>A pass before the last position whose lookup resolves reports and then waits.\<close>

lemma pass_reported:
  assumes "normalize raw \<noteq> []"
    and "user_not_found (get_user_info e (h @ trace st) (normalize raw)) = Inr False"
    and "extract_user_id (get_user_info e (h @ trace st) (normalize raw)) = Inr user_id"
    and "i < total_n"
  shows "\<exists>st'. trace st' = trace st @ [GetUserInfo (normalize raw),
                  ReportAccount user_id reason, Sleep delay] \<and>
           iteration e h reason delay total_n i raw st =
             (case time_sleep e delay of Some x \<Rightarrow> Inl (x, st') | None \<Rightarrow> Inr st')"
  using assms
  by (auto simp: iteration_def Let_def called_def split: option.splits)

lemma process_accounts_first_wait:
  assumes "normalize raw \<noteq> []"
    and "user_not_found (get_user_info e h (normalize raw)) = Inr False"
    and "extract_user_id (get_user_info e h (normalize raw)) = Inr user_id"
    and "others \<noteq> []"
  shows "(\<exists>later. fst (process_accounts e h (raw # others) reason delay) =
            GetUserInfo (normalize raw) # ReportAccount user_id reason # Sleep delay # later)
       \<and> (time_sleep e delay = Some x \<longrightarrow>
            process_accounts e h (raw # others) reason delay =
              ([GetUserInfo (normalize raw), ReportAccount user_id reason, Sleep delay], Inl x))"
proof -
  let ?n = "length (raw # others)"
  from assms(4) have lt: "1 < ?n" by (cases others) simp_all
  from assms(2,3) have
    "user_not_found (get_user_info e (h @ trace start) (normalize raw)) = Inr False"
    "extract_user_id (get_user_info e (h @ trace start) (normalize raw)) = Inr user_id"
    by (simp_all add: start_def)
  from pass_reported [OF assms(1) this lt, of reason delay] obtain st1 where
    t: "trace st1 = [GetUserInfo (normalize raw), ReportAccount user_id reason, Sleep delay]"
    and it: "iteration e h reason delay ?n 1 raw start =
      (case time_sleep e delay of Some x \<Rightarrow> Inl (x, st1) | None \<Rightarrow> Inr st1)"
    by (auto simp: start_def)
  show ?thesis
  proof (cases "time_sleep e delay")
    case (Some y)
    with it have "loop e h reason delay ?n 1 (raw # others) start = Inl (y, st1)" by simp
    then have "process_accounts e h (raw # others) reason delay = (trace st1, Inl y)"
      by (simp add: process_accounts_def)
    with t Some show ?thesis by simp
  next
    case None
    with it have l: "loop e h reason delay ?n 1 (raw # others) start =
        loop e h reason delay ?n (Suc 1) others st1"
      by simp
    show ?thesis
    proof (cases "loop e h reason delay ?n (Suc 1) others st1")
      case (Inl a)
      obtain y st2 where a: "a = (y, st2)" by (cases a)
      with Inl loop_trace_grows [of e h reason delay ?n "Suc 1" others st1 y st2]
      obtain new where "trace st2 = trace st1 @ new" by blast
      moreover from l Inl a have "fst (process_accounts e h (raw # others) reason delay) = trace st2"
        by (simp add: process_accounts_def)
      ultimately show ?thesis using t None by simp
    next
      case (Inr st2)
      with loop_trace_grows [of e h reason delay ?n "Suc 1" others st1 _ st2]
      obtain new where "trace st2 = trace st1 @ new" by blast
      moreover from l Inr have "fst (process_accounts e h (raw # others) reason delay) = trace st2"
        by (simp add: process_accounts_def)
      ultimately show ?thesis using t None by simp
    qed
  qed
qed

text \<open>
  C10: a non-empty delay line is accepted whenever \<open>float\<close> parses it, and the parsed
  value is the delay, whatever its sign. It reaches \<open>time.sleep\<close> unchanged: when the
  first of at least two handles resolves, the fourth call of the run is the wait with
  exactly that value, and if \<open>time.sleep\<close> raises on it the exception ends the run
  there, after the first report. The run with the line "-5" below shows it for a negative
  delay.
\<close>

theorem delay_is_not_validated:
  "(line \<noteq> [] \<and> py_float e line = Some d \<longrightarrow> get_delay e (line # rest) = Inr (d, rest))
   \<and> (load_cookies (cookies_file w) = Inr cookies \<and> check_cookies_valid e [] \<and>
      load_usernames (usernames_file w) = Inr (raw # others) \<and> others \<noteq> [] \<and>
      get_report_reason (stdin w) = Inr (reason, line # confirm # inp3) \<and>
      line \<noteq> [] \<and> py_float e line = Some d \<and> py_lower confirm = ''y'' \<and>
      normalize raw \<noteq> [] \<and>
      user_not_found (get_user_info e [CheckCookies] (normalize raw)) = Inr False \<and>
      extract_user_id (get_user_info e [CheckCookies] (normalize raw)) = Inr user_id
     \<longrightarrow> (\<exists>later. fst (main e w) =
            CheckCookies # GetUserInfo (normalize raw) # ReportAccount user_id reason #
            Sleep d # later)
        \<and> (time_sleep e d = Some x \<longrightarrow>
            main e w =
              ([CheckCookies, GetUserInfo (normalize raw), ReportAccount user_id reason,
                Sleep d], Inl x)))"
proof (intro conjI impI)
  assume "line \<noteq> [] \<and> py_float e line = Some d"
  then show "get_delay e (line # rest) = Inr (d, rest)"
    by (simp add: get_delay_def)
next
  assume a: "load_cookies (cookies_file w) = Inr cookies \<and> check_cookies_valid e [] \<and>
      load_usernames (usernames_file w) = Inr (raw # others) \<and> others \<noteq> [] \<and>
      get_report_reason (stdin w) = Inr (reason, line # confirm # inp3) \<and>
      line \<noteq> [] \<and> py_float e line = Some d \<and> py_lower confirm = ''y'' \<and>
      normalize raw \<noteq> [] \<and>
      user_not_found (get_user_info e [CheckCookies] (normalize raw)) = Inr False \<and>
      extract_user_id (get_user_info e [CheckCookies] (normalize raw)) = Inr user_id"
  then have g: "get_delay e (line # confirm # inp3) = Inr (d, confirm # inp3)"
    by (simp add: get_delay_def)
  from a have m: "main e w =
      (CheckCookies # fst (process_accounts e [CheckCookies] (raw # others) reason d),
       snd (process_accounts e [CheckCookies] (raw # others) reason d))"
    using main_at_confirmation [of w cookies e "raw # others" reason "line # confirm # inp3"
        d confirm inp3] g
    by simp
  from a have f: "(\<exists>later. fst (process_accounts e [CheckCookies] (raw # others) reason d) =
            GetUserInfo (normalize raw) # ReportAccount user_id reason # Sleep d # later)
       \<and> (time_sleep e d = Some x \<longrightarrow>
            process_accounts e [CheckCookies] (raw # others) reason d =
              ([GetUserInfo (normalize raw), ReportAccount user_id reason, Sleep d], Inl x))"
    using process_accounts_first_wait [of raw e "[CheckCookies]" user_id others reason d x]
    by blast
  from f m show "\<exists>later. fst (main e w) =
            CheckCookies # GetUserInfo (normalize raw) # ReportAccount user_id reason #
            Sleep d # later"
    by auto
  {
    assume "time_sleep e d = Some x"
    with f m show "main e w =
              ([CheckCookies, GetUserInfo (normalize raw), ReportAccount user_id reason,
                Sleep d], Inl x)"
      by simp
  }
qed

theorem delay_is_not_validated_witness:
  "get_delay scenario [''-5'', ''y''] = Inr (float_neg5, [''y''])
   \<and> float_lt_zero float_neg5
   \<and> main scenario (answers ''-5'' ''y'') =
     ([CheckCookies, GetUserInfo ''alice'', ReportAccount (JStr ''1'') 1004, Sleep float_neg5],
      Inl ValueError)
   \<and> exit_code (snd (main scenario (answers ''-5'' ''y''))) = 1"
  using delay_is_not_validated [of "''-5''" scenario float_neg5 "[''y'']"
      "answers ''-5'' ''y''" session_cookies "''alice''" "[''carol'']" 1004 "''y''" "[]"
      "JStr ''1''" ValueError]
  by (simp add: answers_startup scenario_delays scenario_alice lowered)

end
